theory Spec2Isabelle
  imports Complex_Main "HOL-Library.Sublist"
begin

section \<open>Job board interface module (tests/job_search/test_job_board.py)\<close>

subsection \<open>Data model\<close>

text \<open>
  \<^verbatim>\<open>datetime.now()\<close> reads the clock. The model takes the value read as an extra
  argument \<open>now\<close> of every function that calls it; only equality of timestamps matters.
\<close>

type_synonym timestamp = int

text \<open>
  The dataclass \<^verbatim>\<open>JobPosting\<close>. The field \<^verbatim>\<open>id\<close> is written \<open>id'\<close>, since
  \<open>id\<close> is the identity function of HOL. \<^verbatim>\<open>raw_data\<close> is an optional dict; the only
  dict the module builds has a string key and a string value, and it is never looked up,
  so it is kept as a list of key/value pairs.
\<close>

record JobPosting =
  id' :: string
  title :: string
  company :: string
  location :: string
  description :: string
  url :: string
  date_posted :: timestamp
  salary_info :: "string option"
  job_type :: "string option"
  requirements :: "string list option"
  is_remote :: bool
  raw_data :: "(string \<times> string) list option"

text \<open>
  The three subclasses of \<^verbatim>\<open>JobBoardInterface\<close> have the same four instance fields
  and differ in their constants only, so one record carries a tag \<open>board\<close> saying which
  class the object belongs to. The leading underscore of the private field names is
  dropped. The intervals \<^verbatim>\<open>1.0\<close>, \<^verbatim>\<open>1.5\<close> and \<^verbatim>\<open>2.0\<close> are stored and
  never computed with; they are exact rationals.
\<close>

datatype board_kind = LinkedIn | Indeed | Glassdoor

record client =
  board :: board_kind
  api_key :: "string option"
  rate_limited :: bool
  last_request_time :: "rat option"
  min_request_interval :: rat

text \<open>
  The only exception the module raises is \<^verbatim>\<open>ValueError\<close>, in the factory. The other
  three constructors are the error kinds of the specification's taxonomy; no function of
  the module produces them, and they are here so that statements about them can be
  written.
\<close>

datatype error =
    ValueError string
  | InvalidQueryError
  | RateLimitedError
  | NotFoundError

subsection \<open>Constructors\<close>

definition LinkedInJobBoard :: "string option \<Rightarrow> client" where
  "LinkedInJobBoard key =
     \<lparr>board = LinkedIn, api_key = key, rate_limited = False,
      last_request_time = None, min_request_interval = 1\<rparr>"

definition IndeedJobBoard :: "string option \<Rightarrow> client" where
  "IndeedJobBoard key =
     \<lparr>board = Indeed, api_key = key, rate_limited = False,
      last_request_time = None, min_request_interval = 3 / 2\<rparr>"

definition GlassdoorJobBoard :: "string option \<Rightarrow> client" where
  "GlassdoorJobBoard key =
     \<lparr>board = Glassdoor, api_key = key, rate_limited = False,
      last_request_time = None, min_request_interval = 2\<rparr>"

fun name :: "client \<Rightarrow> string" where
  "name self =
     (case board self of
        LinkedIn \<Rightarrow> ''LinkedIn''
      | Indeed \<Rightarrow> ''Indeed''
      | Glassdoor \<Rightarrow> ''Glassdoor'')"

subsection \<open>Python list slicing\<close>

text \<open>
  \<^verbatim>\<open>xs[:k]\<close>: for \<open>k \<ge> 0\<close> the first \<open>k\<close> elements (all of them when the list is
  shorter); for \<open>k < 0\<close> everything but the last \<open>-k\<close> elements (nothing when the list is
  shorter). \<open>nat\<close> maps a negative stop index to 0, as Python clamps it.
\<close>

definition slice_to :: "'a list \<Rightarrow> int \<Rightarrow> 'a list" where
  "slice_to xs k =
     (if k < 0 then take (nat (int (length xs) + k)) xs else take (nat k) xs)"

subsection \<open>search\<close>

text \<open>The posting that each \<^verbatim>\<open>search\<close> builds as \<^verbatim>\<open>mock_job\<close>.\<close>

fun mock_job :: "board_kind \<Rightarrow> timestamp \<Rightarrow> JobPosting" where
  "mock_job LinkedIn now =
     \<lparr>id' = ''linkedin-job-123'',
      title = ''Senior Software Engineer'',
      company = ''Tech Company Inc.'',
      location = ''San Francisco, CA'',
      description = ''We'' @ [CHR 0x27] @ ''re looking for a senior software engineer...'',
      url = ''https://linkedin.com/jobs/view/123'',
      date_posted = now,
      salary_info = Some ''$120,000 - $150,000'',
      job_type = Some ''full-time'',
      requirements = Some [''Python'', ''AWS'', ''5+ years experience''],
      is_remote = True,
      raw_data = Some [(''original_data'', ''would be here'')]\<rparr>"
| "mock_job Indeed now =
     \<lparr>id' = ''indeed-job-456'',
      title = ''Python Developer'',
      company = ''Software Solutions LLC'',
      location = ''New York, NY'',
      description = ''Looking for a Python developer with web experience...'',
      url = ''https://indeed.com/jobs/view/456'',
      date_posted = now,
      salary_info = Some ''$90,000 - $110,000'',
      job_type = Some ''full-time'',
      requirements = Some [''Python'', ''Django'', ''3+ years experience''],
      is_remote = False,
      raw_data = Some [(''original_data'', ''would be here'')]\<rparr>"
| "mock_job Glassdoor now =
     \<lparr>id' = ''glassdoor-job-789'',
      title = ''Frontend Developer'',
      company = ''WebUI Technologies'',
      location = ''Austin, TX'',
      description = ''Seeking a skilled frontend developer...'',
      url = ''https://glassdoor.com/jobs/view/789'',
      date_posted = now,
      salary_info = Some ''$85,000 - $105,000'',
      job_type = Some ''full-time'',
      requirements = Some [''JavaScript'', ''React'', ''2+ years experience''],
      is_remote = True,
      raw_data = Some [(''original_data'', ''would be here'')]\<rparr>"

text \<open>
  \<^verbatim>\<open>search(self, keywords, location, radius, job_type, remote, experience_level,
  posted_within_days, limit)\<close>. The method has no \<^verbatim>\<open>raise\<close> and assigns to no field of
  \<^verbatim>\<open>self\<close>: it appends \<^verbatim>\<open>mock_job\<close> to an empty list and returns
  \<^verbatim>\<open>mock_results[:limit]\<close>. The result is paired with the client after the call.
  The parameters \<^verbatim>\<open>location\<close> and \<^verbatim>\<open>job_type\<close> are written \<open>loc\<close> and
  \<open>jtypes\<close>, since the record fields have those names.
\<close>

definition search ::
  "client \<Rightarrow> string list \<Rightarrow> string option \<Rightarrow> int option \<Rightarrow> string list option \<Rightarrow> bool
     \<Rightarrow> string list option \<Rightarrow> int option \<Rightarrow> int \<Rightarrow> timestamp
     \<Rightarrow> (error + JobPosting list) \<times> client" where
  "search self keywords loc radius jtypes remote experience_level posted_within_days
     limit now =
     (let mock_results = [] @ [mock_job (board self) now]
      in (Inr (slice_to mock_results limit), self))"

subsection \<open>get_job_details\<close>

fun url_prefix :: "board_kind \<Rightarrow> string" where
  "url_prefix LinkedIn = ''https://linkedin.com/jobs/view/''"
| "url_prefix Indeed = ''https://indeed.com/jobs/view/''"
| "url_prefix Glassdoor = ''https://glassdoor.com/jobs/view/''"

fun details_job :: "board_kind \<Rightarrow> string \<Rightarrow> timestamp \<Rightarrow> JobPosting" where
  "details_job LinkedIn job_id now =
     \<lparr>id' = job_id,
      title = ''Senior Software Engineer'',
      company = ''Tech Company Inc.'',
      location = ''San Francisco, CA'',
      description = ''Detailed job description with requirements...'',
      url = url_prefix LinkedIn @ job_id,
      date_posted = now,
      salary_info = Some ''$120,000 - $150,000'',
      job_type = Some ''full-time'',
      requirements = Some [''Python'', ''AWS'', ''5+ years experience''],
      is_remote = True,
      raw_data = Some [(''original_data'', ''would be here'')]\<rparr>"
| "details_job Indeed job_id now =
     \<lparr>id' = job_id,
      title = ''Python Developer'',
      company = ''Software Solutions LLC'',
      location = ''New York, NY'',
      description = ''Detailed job description for Python developer role...'',
      url = url_prefix Indeed @ job_id,
      date_posted = now,
      salary_info = Some ''$90,000 - $110,000'',
      job_type = Some ''full-time'',
      requirements = Some [''Python'', ''Django'', ''3+ years experience''],
      is_remote = False,
      raw_data = Some [(''original_data'', ''would be here'')]\<rparr>"
| "details_job Glassdoor job_id now =
     \<lparr>id' = job_id,
      title = ''Frontend Developer'',
      company = ''WebUI Technologies'',
      location = ''Austin, TX'',
      description = ''Detailed job description for frontend developer role...'',
      url = url_prefix Glassdoor @ job_id,
      date_posted = now,
      salary_info = Some ''$85,000 - $105,000'',
      job_type = Some ''full-time'',
      requirements = Some [''JavaScript'', ''React'', ''2+ years experience''],
      is_remote = True,
      raw_data = Some [(''original_data'', ''would be here'')]\<rparr>"

text \<open>
  \<^verbatim>\<open>get_job_details(self, job_id)\<close> has no \<^verbatim>\<open>raise\<close> either and looks the id up
  nowhere: it returns a new posting built from \<^verbatim>\<open>job_id\<close>.
\<close>

definition get_job_details ::
  "client \<Rightarrow> string \<Rightarrow> timestamp \<Rightarrow> (error + JobPosting) \<times> client" where
  "get_job_details self job_id now = (Inr (details_job (board self) job_id now), self)"

subsection \<open>is_rate_limited\<close>

definition is_rate_limited :: "client \<Rightarrow> bool \<times> client" where
  "is_rate_limited self = (rate_limited self, self)"

subsection \<open>JobBoardFactory.create\<close>

text \<open>
  A \<open>char\<close> is read as a code point below 256. On these \<^verbatim>\<open>str.lower\<close> adds 32 to
  the capital letters \<open>A\<close> to \<open>Z\<close> (65 to 90) and to the capital letters of Latin-1
  (192 to 222, the multiplication sign 215 apart), and leaves every other code point as
  it is.
\<close>

definition lower_char :: "char \<Rightarrow> char" where
  "lower_char c =
     (let n = (of_char c :: nat)
      in if 65 \<le> n \<and> n \<le> 90 then char_of (n + 32)
         else if n = 215 then c
         else if 192 \<le> n \<and> n \<le> 222 then char_of (n + 32)
         else c)"

definition lower :: "string \<Rightarrow> string" where
  "lower s = map lower_char s"

definition create :: "string \<Rightarrow> string option \<Rightarrow> error + client" where
  "create board_name key =
     (let board_name = lower board_name
      in if board_name = ''linkedin'' then Inr (LinkedInJobBoard key)
         else if board_name = ''indeed'' then Inr (IndeedJobBoard key)
         else if board_name = ''glassdoor'' then Inr (GlassdoorJobBoard key)
         else Inl (ValueError (''Unknown job board: '' @ board_name)))"

subsection \<open>Assignment to a field of a JobPosting\<close>

text \<open>
  \<^verbatim>\<open>JobPosting\<close> is declared with a bare \<^verbatim>\<open>@dataclass\<close>, so the decorator's
  parameter \<^verbatim>\<open>frozen\<close> has its default \<^verbatim>\<open>False\<close>. A frozen dataclass answers
  every assignment \<^verbatim>\<open>p.field = value\<close> with \<^verbatim>\<open>FrozenInstanceError\<close>; one that is
  not frozen performs it.
\<close>

definition JobPosting_frozen :: bool where
  "JobPosting_frozen = False"

datatype attr_error = FrozenInstanceError

text \<open>An assignment names a field and gives a value of the field's declared type.\<close>

datatype assignment =
    Assign_id string
  | Assign_title string
  | Assign_company string
  | Assign_location string
  | Assign_description string
  | Assign_url string
  | Assign_date_posted timestamp
  | Assign_salary_info "string option"
  | Assign_job_type "string option"
  | Assign_requirements "string list option"
  | Assign_is_remote bool
  | Assign_raw_data "(string \<times> string) list option"

fun assign :: "JobPosting \<Rightarrow> assignment \<Rightarrow> JobPosting" where
  "assign p (Assign_id v) = p\<lparr>id' := v\<rparr>"
| "assign p (Assign_title v) = p\<lparr>title := v\<rparr>"
| "assign p (Assign_company v) = p\<lparr>company := v\<rparr>"
| "assign p (Assign_location v) = p\<lparr>location := v\<rparr>"
| "assign p (Assign_description v) = p\<lparr>description := v\<rparr>"
| "assign p (Assign_url v) = p\<lparr>url := v\<rparr>"
| "assign p (Assign_date_posted v) = p\<lparr>date_posted := v\<rparr>"
| "assign p (Assign_salary_info v) = p\<lparr>salary_info := v\<rparr>"
| "assign p (Assign_job_type v) = p\<lparr>job_type := v\<rparr>"
| "assign p (Assign_requirements v) = p\<lparr>requirements := v\<rparr>"
| "assign p (Assign_is_remote v) = p\<lparr>is_remote := v\<rparr>"
| "assign p (Assign_raw_data v) = p\<lparr>raw_data := v\<rparr>"

text \<open>
  \<^verbatim>\<open>p.field = value\<close> on a \<^verbatim>\<open>JobPosting\<close>: the posting after the assignment, or the
  error that a frozen dataclass raises.
\<close>

definition setattr :: "JobPosting \<Rightarrow> assignment \<Rightarrow> attr_error + JobPosting" where
  "setattr p a = (if JobPosting_frozen then Inl FrozenInstanceError else Inr (assign p a))"

section \<open>Basic facts\<close>

lemma slice_to_singleton: "slice_to [x] k = (if 1 \<le> k then [x] else [])"
  by (cases "nat k") (auto simp add: slice_to_def)

lemma search_eq:
  "search self keywords loc radius jtypes remote experience_level posted_within_days limit now =
     (Inr (if 1 \<le> limit then [mock_job (board self) now] else []), self)"
  by (simp add: search_def slice_to_singleton)

lemma lower_char_idem: "lower_char (lower_char c) = lower_char c"
  by (simp add: lower_char_def Let_def)

lemma lower_idem: "lower (lower s) = lower s"
  by (simp add: lower_def lower_char_idem)

lemma boards_distinct:
  "LinkedInJobBoard k \<noteq> IndeedJobBoard k"
  "LinkedInJobBoard k \<noteq> GlassdoorJobBoard k"
  "IndeedJobBoard k \<noteq> GlassdoorJobBoard k"
  by (simp_all add: LinkedInJobBoard_def IndeedJobBoard_def GlassdoorJobBoard_def)

section \<open>The claims\<close>

subsection \<open>C1: the length of a search result and the limit\<close>

text \<open>
  C1 as stated: for every search call on any board with \<open>limit = N\<close>, the returned
  sequence has length at most \<open>N\<close>. \<^verbatim>\<open>limit\<close> is a Python \<^verbatim>\<open>int\<close> that the method
  does not check, and a slice with a negative stop index is the empty list, whose length 0
  is not at most \<open>N\<close>. At \<open>limit = -1\<close> on LinkedIn the call returns the empty list.
\<close>

theorem search_negative_limit_counterexample:
  "fst (search (LinkedInJobBoard None) [''python''] None None None False None None (- 1) 0)
     = Inr []
   \<and> \<not> (case fst (search (LinkedInJobBoard None) [''python''] None None None False None
                   None (- 1) 0) of
          Inl e \<Rightarrow> False
        | Inr ps \<Rightarrow> int (length ps) \<le> - 1)"
  by (simp add: search_eq)

text \<open>
  C1, amended: for every search call on any board with \<open>limit = N\<close>, the call returns a
  sequence of postings of length at most \<open>max 0 N\<close>: at most \<open>N\<close> when \<open>N \<ge> 0\<close>, and
  empty when \<open>N < 0\<close>.
\<close>

theorem search_length_bounded:
  "\<exists>ps. fst (search self keywords loc radius jtypes remote experience_level
             posted_within_days limit now) = Inr ps
      \<and> int (length ps) \<le> max 0 limit"
  by (simp add: search_eq)

subsection \<open>C2: query validation\<close>

text \<open>
  C2 as stated: a search whose keyword set is empty or whose limit is at most 0 fails with
  InvalidQueryError. The methods validate nothing. With no keywords and the default limit
  50, LinkedIn returns its mock posting; with limit 0, Indeed returns the empty list.
\<close>

theorem search_invalid_query_counterexample:
  "fst (search (LinkedInJobBoard None) [] None None None False None None 50 0)
     = Inr [mock_job LinkedIn 0]
   \<and> fst (search (LinkedInJobBoard None) [] None None None False None None 50 0)
     \<noteq> Inl InvalidQueryError
   \<and> fst (search (IndeedJobBoard None) [''python''] None None None False None None 0 0)
     = Inr []
   \<and> fst (search (IndeedJobBoard None) [''python''] None None None False None None 0 0)
     \<noteq> Inl InvalidQueryError"
  by (simp add: search_eq IndeedJobBoard_def LinkedInJobBoard_def)

text \<open>
  C2, amended: no search invocation fails with InvalidQueryError. For every keyword list,
  empty or not, and every limit, positive or not, the call returns a sequence of postings;
  in particular no valid query raises InvalidQueryError.
\<close>

theorem search_never_invalid_query:
  "(\<exists>ps. fst (search self keywords loc radius jtypes remote experience_level
             posted_within_days limit now) = Inr ps)
   \<and> fst (search self keywords loc radius jtypes remote experience_level
             posted_within_days limit now) \<noteq> Inl InvalidQueryError"
  by (simp add: search_eq)

subsection \<open>C3: search on a rate-limited client\<close>

text \<open>
  C3 as stated: if the client is in the rate-limited state, search fails with
  RateLimitedError rather than returning postings. On a LinkedIn client whose
  \<^verbatim>\<open>_rate_limited\<close> flag is set, \<^verbatim>\<open>is_rate_limited\<close> answers True and search
  returns the mock posting.
\<close>

theorem search_rate_limited_counterexample:
  "fst (is_rate_limited ((LinkedInJobBoard None)\<lparr>rate_limited := True\<rparr>)) = True
   \<and> fst (search ((LinkedInJobBoard None)\<lparr>rate_limited := True\<rparr>)
            [''python''] None None None False None None 50 0)
     = Inr [mock_job LinkedIn 0]
   \<and> fst (search ((LinkedInJobBoard None)\<lparr>rate_limited := True\<rparr>)
            [''python''] None None None False None None 50 0)
     \<noteq> Inl RateLimitedError"
  by (simp add: search_eq is_rate_limited_def LinkedInJobBoard_def)

text \<open>
  C3, amended: for every job board client, search never fails with RateLimitedError; a
  client in the rate-limited state returns the same postings as the same client out of it.
\<close>

theorem search_ignores_rate_limited:
  "fst (search (self\<lparr>rate_limited := True\<rparr>) keywords loc radius jtypes remote
          experience_level posted_within_days limit now)
     = fst (search (self\<lparr>rate_limited := False\<rparr>) keywords loc radius jtypes remote
          experience_level posted_within_days limit now)
   \<and> fst (search (self\<lparr>rate_limited := True\<rparr>) keywords loc radius jtypes remote
          experience_level posted_within_days limit now) \<noteq> Inl RateLimitedError"
  by (simp add: search_eq)

subsection \<open>C4: details of an unknown job id\<close>

text \<open>
  C4 as stated: for a job id unknown to the source, get_job_details fails with
  NotFoundError. No board keeps a set of known ids. The only id that LinkedIn's search
  ever returns is \<open>linkedin-job-123\<close>; for the id \<open>no-such-job\<close> the call returns a
  posting all the same.
\<close>

theorem get_job_details_unknown_id_counterexample:
  "fst (search (LinkedInJobBoard None) [''python''] None None None False None None 50 0)
     = Inr [mock_job LinkedIn 0]
   \<and> id' (mock_job LinkedIn 0) \<noteq> ''no-such-job''
   \<and> fst (get_job_details (LinkedInJobBoard None) ''no-such-job'' 0)
     = Inr (details_job LinkedIn ''no-such-job'' 0)
   \<and> fst (get_job_details (LinkedInJobBoard None) ''no-such-job'' 0) \<noteq> Inl NotFoundError"
  by (simp add: search_eq get_job_details_def LinkedInJobBoard_def)

text \<open>
  C4, amended: for every job board client and every job id, get_job_details returns a
  posting; it never fails with NotFoundError, whether or not the source knows the id.
\<close>

theorem get_job_details_never_not_found:
  "(\<exists>p. fst (get_job_details self job_id now) = Inr p)
   \<and> fst (get_job_details self job_id now) \<noteq> Inl NotFoundError"
  by (simp add: get_job_details_def)

subsection \<open>C5: search results are hardcoded\<close>

text \<open>
  C5: two search calls on the same board with the same limit return identical postings,
  the \<^verbatim>\<open>date_posted\<close> timestamp apart, whatever the keywords, location, radius, job
  types, remote flag, experience levels and posting age asked for. The second client is any
  client of the same class as the first, and the two calls may read different clock
  values; the results are compared after setting \<^verbatim>\<open>date_posted\<close> to one value \<open>d\<close>.
\<close>

theorem search_is_mock_data:
  "\<exists>ps1 ps2.
      fst (search self keywords1 loc1 radius1 jtypes1 remote1 experience_level1
             posted_within_days1 limit now1) = Inr ps1
    \<and> fst (search (self'\<lparr>board := board self\<rparr>) keywords2 loc2 radius2 jtypes2 remote2
             experience_level2 posted_within_days2 limit now2) = Inr ps2
    \<and> map (\<lambda>p. p\<lparr>date_posted := d\<rparr>) ps1 = map (\<lambda>p. p\<lparr>date_posted := d\<rparr>) ps2"
  by (cases "board self") (simp_all add: search_eq)

subsection \<open>C6: the rate-limit fields are not wired to anything\<close>

text \<open>
  C6: search and get_job_details neither read nor modify the fields
  \<^verbatim>\<open>_min_request_interval\<close>, \<^verbatim>\<open>_last_request_time\<close> and \<^verbatim>\<open>_rate_limited\<close>.
  Not read: the result of a call is the same after the three fields are overwritten with
  any values \<open>r\<close>, \<open>t\<close> and \<open>m\<close>. Not modified: the client after the call is the client
  before it.
\<close>

theorem rate_limit_fields_not_wired:
  "fst (search (self\<lparr>rate_limited := r, last_request_time := t, min_request_interval := m\<rparr>)
          keywords loc radius jtypes remote experience_level posted_within_days limit now)
     = fst (search self keywords loc radius jtypes remote experience_level
          posted_within_days limit now)
   \<and> snd (search self keywords loc radius jtypes remote experience_level
          posted_within_days limit now) = self
   \<and> fst (get_job_details
          (self\<lparr>rate_limited := r, last_request_time := t, min_request_interval := m\<rparr>)
          job_id now)
     = fst (get_job_details self job_id now)
   \<and> snd (get_job_details self job_id now) = self"
  by (simp add: search_eq get_job_details_def)

subsection \<open>C7: is_rate_limited is a pure read\<close>

text \<open>
  C7: is_rate_limited returns the current value of the client's rate-limited flag and
  leaves every field of the client unchanged.
\<close>

theorem is_rate_limited_pure_read:
  "fst (is_rate_limited self) = rate_limited self \<and> snd (is_rate_limited self) = self"
  by (simp add: is_rate_limited_def)

subsection \<open>C8: whether a posting can change after its construction\<close>

text \<open>
  C8 as stated: every JobPosting is immutable after creation, no operation can change a
  field of a posting once a client has constructed it. The dataclass is not frozen. The
  posting that LinkedIn's get_job_details constructs for the id \<open>123\<close> has the title
  \<open>Senior Software Engineer\<close>; assigning \<open>Changed\<close> to its \<^verbatim>\<open>title\<close> raises nothing
  and the posting then has the title \<open>Changed\<close>.
\<close>

theorem posting_immutable_counterexample:
  "fst (get_job_details (LinkedInJobBoard None) ''123'' 0)
     = Inr (details_job LinkedIn ''123'' 0)
   \<and> title (details_job LinkedIn ''123'' 0) = ''Senior Software Engineer''
   \<and> setattr (details_job LinkedIn ''123'' 0) (Assign_title ''Changed'')
     = Inr ((details_job LinkedIn ''123'' 0)\<lparr>title := ''Changed''\<rparr>)
   \<and> setattr (details_job LinkedIn ''123'' 0) (Assign_title ''Changed'')
     \<noteq> Inl FrozenInstanceError
   \<and> title ((details_job LinkedIn ''123'' 0)\<lparr>title := ''Changed''\<rparr>) = ''Changed''
   \<and> (details_job LinkedIn ''123'' 0)\<lparr>title := ''Changed''\<rparr>
     \<noteq> details_job LinkedIn ''123'' 0"
proof -
  have neq: "''Changed'' \<noteq> ''Senior Software Engineer''"
    by simp
  have changed: "(details_job LinkedIn ''123'' 0)\<lparr>title := ''Changed''\<rparr>
      \<noteq> details_job LinkedIn ''123'' 0"
  proof
    assume "(details_job LinkedIn ''123'' 0)\<lparr>title := ''Changed''\<rparr>
      = details_job LinkedIn ''123'' 0"
    then have "title ((details_job LinkedIn ''123'' 0)\<lparr>title := ''Changed''\<rparr>)
      = title (details_job LinkedIn ''123'' 0)"
      by (rule arg_cong)
    with neq show False by simp
  qed
  show ?thesis
    using changed
    by (simp add: get_job_details_def LinkedInJobBoard_def setattr_def JobPosting_frozen_def)
qed

text \<open>
  C8, amended: a JobPosting is a mutable record. For every posting, also one that a client
  has constructed, and for every field, assigning a value to the field succeeds (it never
  fails with FrozenInstanceError) and gives the posting with that field set to the value
  and every other field as it was.
\<close>

theorem posting_fields_assignable:
  "setattr p a \<noteq> Inl FrozenInstanceError
   \<and> setattr p (Assign_id s) = Inr (p\<lparr>id' := s\<rparr>)
   \<and> setattr p (Assign_title s) = Inr (p\<lparr>title := s\<rparr>)
   \<and> setattr p (Assign_company s) = Inr (p\<lparr>company := s\<rparr>)
   \<and> setattr p (Assign_location s) = Inr (p\<lparr>location := s\<rparr>)
   \<and> setattr p (Assign_description s) = Inr (p\<lparr>description := s\<rparr>)
   \<and> setattr p (Assign_url s) = Inr (p\<lparr>url := s\<rparr>)
   \<and> setattr p (Assign_date_posted t) = Inr (p\<lparr>date_posted := t\<rparr>)
   \<and> setattr p (Assign_salary_info os) = Inr (p\<lparr>salary_info := os\<rparr>)
   \<and> setattr p (Assign_job_type os) = Inr (p\<lparr>job_type := os\<rparr>)
   \<and> setattr p (Assign_requirements rs) = Inr (p\<lparr>requirements := rs\<rparr>)
   \<and> setattr p (Assign_is_remote b) = Inr (p\<lparr>is_remote := b\<rparr>)
   \<and> setattr p (Assign_raw_data d) = Inr (p\<lparr>raw_data := d\<rparr>)"
  by (simp add: setattr_def JobPosting_frozen_def)

subsection \<open>C9: the factory\<close>

text \<open>
  C9: \<^verbatim>\<open>JobBoardFactory.create(board_name, api_key)\<close> returns a LinkedInJobBoard, an
  IndeedJobBoard or a GlassdoorJobBoard exactly when \<^verbatim>\<open>board_name\<close> lowercased is
  \<open>linkedin\<close>, \<open>indeed\<close> or \<open>glassdoor\<close>, and raises ValueError for every other name.
  The matching is case-insensitive: a name and its lowercased form give the same result.
\<close>

theorem create_by_lowercased_name:
  "(create board_name key = Inr (LinkedInJobBoard key) \<longleftrightarrow> lower board_name = ''linkedin'')
   \<and> (create board_name key = Inr (IndeedJobBoard key) \<longleftrightarrow> lower board_name = ''indeed'')
   \<and> (create board_name key = Inr (GlassdoorJobBoard key)
        \<longleftrightarrow> lower board_name = ''glassdoor'')
   \<and> (create board_name key = Inl (ValueError (''Unknown job board: '' @ lower board_name))
        \<longleftrightarrow> lower board_name \<notin> {''linkedin'', ''indeed'', ''glassdoor''})
   \<and> create (lower board_name) key = create board_name key"
  by (simp add: create_def Let_def boards_distinct boards_distinct [symmetric] lower_idem)

subsection \<open>C10: the posting that get_job_details returns\<close>

text \<open>
  C10: for every client and every job id, get_job_details returns a posting whose
  \<^verbatim>\<open>id\<close> is the given id and whose \<^verbatim>\<open>url\<close> contains it (the url is the board's
  prefix followed by the id). Every other field but \<^verbatim>\<open>date_posted\<close> is a constant of
  the board: the posting \<open>q\<close> that any client of the same class returns for any other id at
  any other time agrees with it once \<^verbatim>\<open>id\<close>, \<^verbatim>\<open>url\<close> and \<^verbatim>\<open>date_posted\<close> are
  set to common values.
\<close>

theorem get_job_details_fields:
  "\<exists>p q. fst (get_job_details self job_id now) = Inr p
      \<and> fst (get_job_details (self'\<lparr>board := board self\<rparr>) job_id' now') = Inr q
      \<and> id' p = job_id
      \<and> url p = url_prefix (board self) @ job_id
      \<and> sublist job_id (url p)
      \<and> p\<lparr>id' := i, url := u, date_posted := d\<rparr> = q\<lparr>id' := i, url := u, date_posted := d\<rparr>"
  by (cases "board self")
    (simp_all add: get_job_details_def del: append_Cons append_Nil url_prefix.simps)

end
